theory Spec2Isabelle
  imports Complex_Main "HOL-Library.Monad_Syntax" "HOL-Library.Sublist"
begin

section \<open>Execution of a top-level script\<close>

text \<open>
  Both documents of the repository consist of top-level scripts: three notebook cells
  (Python, calling \<^verbatim>\<open>scipy.stats\<close>) and four R Markdown chunks (R, calling
  \<^verbatim>\<open>rpart\<close>, \<^verbatim>\<open>ipred\<close>, \<^verbatim>\<open>randomForest\<close> and \<^verbatim>\<open>Cubist\<close>).
  A script is the list of its statements in source order. A statement is a function
  from the variable store to the updated store; it yields \<open>None\<close> where the interpreter
  would stop with an error (a name that is not bound, a column that does not exist).
  The library routines the scripts call are not part of the repository: every model
  below takes them as parameters, so that each theorem holds for whatever they compute.
  Python floats and R doubles are modelled as real numbers.

  The notebook has two more cells marked as code, \<^verbatim>\<open>Pr[X <= critical value] = probability\<close>
  and \<^verbatim>\<open>probability = 1 - alpha\<close>. They are formulas of the text, were never executed
  (no execution count, no output) and are not modelled.
\<close>

type_synonym 's stmt = "'s \<Rightarrow> 's option"

text \<open>
  \<open>exec\<close> runs the statements one after the other and returns the store after each of
  them; the first failing statement ends the run.
\<close>

fun exec :: "'s stmt list \<Rightarrow> 's \<Rightarrow> 's list option" where
  "exec [] s = Some []"
| "exec (c # cs) s =
     (case c s of
        None \<Rightarrow> None
      | Some s' \<Rightarrow> (case exec cs s' of None \<Rightarrow> None | Some tr \<Rightarrow> Some (s' # tr)))"

definition run :: "'s stmt list \<Rightarrow> 's \<Rightarrow> 's option" where
  "run cs s = (case exec cs s of None \<Rightarrow> None | Some tr \<Rightarrow> Some (last (s # tr)))"

section \<open>The notebook: critical values with SciPy\<close>

text \<open>
  The variables of the three cells are \<^verbatim>\<open>p\<close>, \<^verbatim>\<open>df\<close> and \<^verbatim>\<open>value\<close>; \<open>stdout\<close> collects
  what \<^verbatim>\<open>print\<close> writes. A variable that has not been assigned yet is \<open>None\<close>.
\<close>

record py_vars =
  var_p :: "real option"
  var_df :: "int option"
  var_value :: "real option"
  stdout :: "real list"

definition py_init :: py_vars where
  "py_init = \<lparr>var_p = None, var_df = None, var_value = None, stdout = []\<rparr>"

text \<open>
  The Gaussian cell. The probability literal of the line \<^verbatim>\<open>p = 0.95\<close> is the
  argument \<open>prob\<close> of \<open>gaussian_stmts\<close>, and \<open>gaussian_script\<close> is the cell as written.
  \<^verbatim>\<open>
  from scipy.stats import norm
  p = 0.95
  value = norm.ppf(p)
  print(value)
  p = norm.cdf(value)
  print(p)
  \<close>
  The import binds the library functions, which are the parameters \<open>norm_ppf\<close> and
  \<open>norm_cdf\<close>; as a statement it leaves the store as it is.
\<close>

definition gaussian_stmts ::
  "real \<Rightarrow> (real \<Rightarrow> real) \<Rightarrow> (real \<Rightarrow> real) \<Rightarrow> py_vars stmt list" where
  "gaussian_stmts prob norm_ppf norm_cdf =
     [\<lambda>s. Some s,
      \<lambda>s. Some (s\<lparr>var_p := Some prob\<rparr>),
      \<lambda>s. do { p \<leftarrow> var_p s; Some (s\<lparr>var_value := Some (norm_ppf p)\<rparr>) },
      \<lambda>s. do { v \<leftarrow> var_value s; Some (s\<lparr>stdout := stdout s @ [v]\<rparr>) },
      \<lambda>s. do { v \<leftarrow> var_value s; Some (s\<lparr>var_p := Some (norm_cdf v)\<rparr>) },
      \<lambda>s. do { p \<leftarrow> var_p s; Some (s\<lparr>stdout := stdout s @ [p]\<rparr>) }]"

definition gaussian_script :: "(real \<Rightarrow> real) \<Rightarrow> (real \<Rightarrow> real) \<Rightarrow> py_vars stmt list" where
  "gaussian_script = gaussian_stmts 0.95"

text \<open>
  The Student's t cell and the Chi-squared cell have the same shape, with the degrees
  of freedom as a second variable:
  \<^verbatim>\<open>
  from scipy.stats import t
  p = 0.95
  df = 10
  value = t.ppf(p, df)
  print(value)
  p = t.cdf(value, df)
  print(p)
  \<close>
\<close>

definition t_stmts ::
  "real \<Rightarrow> int \<Rightarrow> (real \<Rightarrow> int \<Rightarrow> real) \<Rightarrow> (real \<Rightarrow> int \<Rightarrow> real) \<Rightarrow> py_vars stmt list" where
  "t_stmts prob dof t_ppf t_cdf =
     [\<lambda>s. Some s,
      \<lambda>s. Some (s\<lparr>var_p := Some prob\<rparr>),
      \<lambda>s. Some (s\<lparr>var_df := Some dof\<rparr>),
      \<lambda>s. do { p \<leftarrow> var_p s; d \<leftarrow> var_df s; Some (s\<lparr>var_value := Some (t_ppf p d)\<rparr>) },
      \<lambda>s. do { v \<leftarrow> var_value s; Some (s\<lparr>stdout := stdout s @ [v]\<rparr>) },
      \<lambda>s. do { v \<leftarrow> var_value s; d \<leftarrow> var_df s; Some (s\<lparr>var_p := Some (t_cdf v d)\<rparr>) },
      \<lambda>s. do { p \<leftarrow> var_p s; Some (s\<lparr>stdout := stdout s @ [p]\<rparr>) }]"

definition t_script ::
  "(real \<Rightarrow> int \<Rightarrow> real) \<Rightarrow> (real \<Rightarrow> int \<Rightarrow> real) \<Rightarrow> py_vars stmt list" where
  "t_script = t_stmts 0.95 10"

definition chi2_stmts ::
  "real \<Rightarrow> int \<Rightarrow> (real \<Rightarrow> int \<Rightarrow> real) \<Rightarrow> (real \<Rightarrow> int \<Rightarrow> real) \<Rightarrow> py_vars stmt list" where
  "chi2_stmts prob dof chi2_ppf chi2_cdf =
     [\<lambda>s. Some s,
      \<lambda>s. Some (s\<lparr>var_p := Some prob\<rparr>),
      \<lambda>s. Some (s\<lparr>var_df := Some dof\<rparr>),
      \<lambda>s. do { p \<leftarrow> var_p s; d \<leftarrow> var_df s; Some (s\<lparr>var_value := Some (chi2_ppf p d)\<rparr>) },
      \<lambda>s. do { v \<leftarrow> var_value s; Some (s\<lparr>stdout := stdout s @ [v]\<rparr>) },
      \<lambda>s. do { v \<leftarrow> var_value s; d \<leftarrow> var_df s; Some (s\<lparr>var_p := Some (chi2_cdf v d)\<rparr>) },
      \<lambda>s. do { p \<leftarrow> var_p s; Some (s\<lparr>stdout := stdout s @ [p]\<rparr>) }]"

definition chi2_script ::
  "(real \<Rightarrow> int \<Rightarrow> real) \<Rightarrow> (real \<Rightarrow> int \<Rightarrow> real) \<Rightarrow> py_vars stmt list" where
  "chi2_script = chi2_stmts 0.95 10"

text \<open>
  A concrete library for examples: the uniform distribution on the interval from 0 to 2,
  whose quantile function doubles the probability and whose cumulative function halves
  the value and clamps it to the unit interval.
\<close>

definition unif_ppf :: "real \<Rightarrow> real" where
  "unif_ppf q = 2 * q"

definition unif_cdf :: "real \<Rightarrow> real" where
  "unif_cdf x = max 0 (min 1 (x / 2))"

text \<open>The same library as a distribution with degrees of freedom, which it ignores.\<close>

definition unif_ppf_df :: "real \<Rightarrow> int \<Rightarrow> real" where
  "unif_ppf_df q d = unif_ppf q"

definition unif_cdf_df :: "real \<Rightarrow> int \<Rightarrow> real" where
  "unif_cdf_df x d = unif_cdf x"

section \<open>The R Markdown document: regression with decision trees\<close>

subsection \<open>Vectors and data frames\<close>

text \<open>
  A data frame is a list of named columns, in order. The \<^verbatim>\<open>longley\<close> data set belongs
  to R's \<^verbatim>\<open>datasets\<close> package, not to the repository: the recipes take it as the
  parameter \<open>longley\<close>.
\<close>

type_synonym data_frame = "(string \<times> real list) list"

text \<open>
  \<^verbatim>\<open>nrow(d)\<close>, the number of rows of a frame, read off its first column (0 for a frame
  without columns).
\<close>

definition nrow :: "data_frame \<Rightarrow> nat" where
  "nrow d = (case d of [] \<Rightarrow> 0 | nc # _ \<Rightarrow> length (snd nc))"

text \<open>\<^verbatim>\<open>lo:hi\<close> counts up from \<open>lo\<close> to \<open>hi\<close>, or down when \<open>lo\<close> is the larger one.\<close>

definition r_seq :: "nat \<Rightarrow> nat \<Rightarrow> nat list" where
  "r_seq lo hi = (if lo \<le> hi then [lo..<Suc hi] else rev [hi..<Suc lo])"

text \<open>
  \<^verbatim>\<open>d[, idx]\<close> with a vector of positive column numbers that selects more than one
  column, as \<^verbatim>\<open>1:6\<close> does: the result is the frame of these columns; an index 0 is
  dropped, an index beyond the last column is the error "undefined columns selected".
\<close>

definition select_cols :: "data_frame \<Rightarrow> nat list \<Rightarrow> data_frame option" where
  "select_cols d idx =
     (let js = filter (\<lambda>i. i \<noteq> 0) idx
      in if list_all (\<lambda>i. i \<le> length d) js then Some (map (\<lambda>i. d ! (i - 1)) js) else None)"

text \<open>
  \<^verbatim>\<open>d[, j]\<close> with one positive column number is that column as a vector, and the same
  error beyond the last column. (For the index 0, which no recipe uses, R returns a frame
  without columns; the model has no vector for it and fails.)
\<close>

definition select_col :: "data_frame \<Rightarrow> nat \<Rightarrow> real list option" where
  "select_col d j = (if 1 \<le> j \<and> j \<le> length d then Some (snd (d ! (j - 1))) else None)"

text \<open>
  \<^verbatim>\<open>d$name\<close>: the first column of that name; without one, the column whose name starts
  with \<open>name\<close> if there is exactly one; otherwise \<^verbatim>\<open>NULL\<close>, which in arithmetic is the
  vector of length 0.
\<close>

definition dollar :: "data_frame \<Rightarrow> string \<Rightarrow> real list" where
  "dollar d name =
     (case map_of d name of
        Some c \<Rightarrow> c
      | None \<Rightarrow> (case filter (\<lambda>nc. prefix name (fst nc)) d of [nc] \<Rightarrow> snd nc | _ \<Rightarrow> []))"

text \<open>
  \<^verbatim>\<open>xs - ys\<close> on vectors: the result has the length of the longer operand and the shorter
  one is recycled; if either has length 0, so has the result.
\<close>

definition vec_sub :: "real list \<Rightarrow> real list \<Rightarrow> real list" where
  "vec_sub xs ys =
     (if xs = [] \<or> ys = [] then []
      else map (\<lambda>i. xs ! (i mod length xs) - ys ! (i mod length ys))
             [0..<max (length xs) (length ys)])"

definition vec_sq :: "real list \<Rightarrow> real list" where
  "vec_sq xs = map (\<lambda>x. x ^ 2) xs"

text \<open>\<^verbatim>\<open>mean\<close> of a vector of length 0 is \<^verbatim>\<open>NaN\<close>, which is not a real number.\<close>

datatype r_double = Val real | NaN

definition r_mean :: "real list \<Rightarrow> r_double" where
  "r_mean xs = (if xs = [] then NaN else Val (sum_list xs / real (length xs)))"

text \<open>The expression \<^verbatim>\<open>mean((longley$Employed - predictions)^2)\<close> of every recipe.\<close>

definition mse :: "real list \<Rightarrow> real list \<Rightarrow> r_double" where
  "mse employed predictions = r_mean (vec_sq (vec_sub employed predictions))"

subsection \<open>Formulas and fitting controls\<close>

text \<open>
  The only formula of the recipes is \<^verbatim>\<open>Employed ~ .\<close>: a response variable on the left
  and the dot on the right. Given the data, the response is the column of that name and
  the dot stands for all other columns.
\<close>

datatype formula_rhs = Dot

datatype formula = Tilde string formula_rhs

fun formula_response :: "formula \<Rightarrow> data_frame \<Rightarrow> real list option" where
  "formula_response (Tilde y Dot) d = map_of d y"

fun formula_predictors :: "formula \<Rightarrow> data_frame \<Rightarrow> data_frame" where
  "formula_predictors (Tilde y Dot) d = filter (\<lambda>nc. fst nc \<noteq> y) d"

text \<open>\<^verbatim>\<open>rpart.control(minsplit=5)\<close>: the one setting the recipes change.\<close>

record rpart_control =
  minsplit :: nat

subsection \<open>The four recipes\<close>

text \<open>
  What a chunk writes to its output: the text that summarising the fit displays, and the
  number that \<^verbatim>\<open>print(mse)\<close> displays.
\<close>

datatype out_item = Text string | Number r_double

record 'fit r_vars =
  r_longley :: "data_frame option"
  r_fit :: "'fit option"
  r_predictions :: "real list option"
  r_mse :: "r_double option"
  r_stdout :: "out_item list"

definition r_init :: "'fit r_vars" where
  "r_init = \<lparr>r_longley = None, r_fit = None, r_predictions = None, r_mse = None, r_stdout = []\<rparr>"

text \<open>
  Classification and regression trees:
  \<^verbatim>\<open>
  library(rpart)
  data(longley)
  fit <- rpart(Employed~., data=longley, control=rpart.control(minsplit=5))
  summary(fit)
  predictions <- predict(fit, longley[,1:6])
  mse <- mean((longley$Employed - predictions)^2)
  print(mse)
  \<close>
  \<^verbatim>\<open>library\<close> makes the package's functions available, which are the parameters \<open>rpart\<close>,
  \<open>summary\<close> and \<open>predict\<close>; \<open>summary fit\<close> is the text that the top-level call
  \<^verbatim>\<open>summary(fit)\<close> displays.
\<close>

definition cart_recipe ::
  "data_frame \<Rightarrow> (formula \<Rightarrow> data_frame \<Rightarrow> rpart_control \<Rightarrow> 'fit) \<Rightarrow> ('fit \<Rightarrow> string) \<Rightarrow>
   ('fit \<Rightarrow> data_frame \<Rightarrow> real list) \<Rightarrow> 'fit r_vars stmt list" where
  "cart_recipe longley rpart summary predict =
     [\<lambda>s. Some s,
      \<lambda>s. Some (s\<lparr>r_longley := Some longley\<rparr>),
      \<lambda>s. do { d \<leftarrow> r_longley s;
               Some (s\<lparr>r_fit := Some (rpart (Tilde ''Employed'' Dot) d \<lparr>minsplit = 5\<rparr>)\<rparr>) },
      \<lambda>s. do { f \<leftarrow> r_fit s; Some (s\<lparr>r_stdout := r_stdout s @ [Text (summary f)]\<rparr>) },
      \<lambda>s. do { f \<leftarrow> r_fit s; d \<leftarrow> r_longley s; x \<leftarrow> select_cols d (r_seq 1 6);
               Some (s\<lparr>r_predictions := Some (predict f x)\<rparr>) },
      \<lambda>s. do { d \<leftarrow> r_longley s; y \<leftarrow> r_predictions s;
               Some (s\<lparr>r_mse := Some (mse (dollar d ''Employed'') y)\<rparr>) },
      \<lambda>s. do { m \<leftarrow> r_mse s; Some (s\<lparr>r_stdout := r_stdout s @ [Number m]\<rparr>) }]"

text \<open>
  Bagging CART: as above with \<^verbatim>\<open>library(ipred)\<close> and
  \<^verbatim>\<open>fit <- bagging(Employed~., data=longley, control=rpart.control(minsplit=5))\<close>.
\<close>

definition bagging_recipe ::
  "data_frame \<Rightarrow> (formula \<Rightarrow> data_frame \<Rightarrow> rpart_control \<Rightarrow> 'fit) \<Rightarrow> ('fit \<Rightarrow> string) \<Rightarrow>
   ('fit \<Rightarrow> data_frame \<Rightarrow> real list) \<Rightarrow> 'fit r_vars stmt list" where
  "bagging_recipe longley bagging summary predict =
     [\<lambda>s. Some s,
      \<lambda>s. Some (s\<lparr>r_longley := Some longley\<rparr>),
      \<lambda>s. do { d \<leftarrow> r_longley s;
               Some (s\<lparr>r_fit := Some (bagging (Tilde ''Employed'' Dot) d \<lparr>minsplit = 5\<rparr>)\<rparr>) },
      \<lambda>s. do { f \<leftarrow> r_fit s; Some (s\<lparr>r_stdout := r_stdout s @ [Text (summary f)]\<rparr>) },
      \<lambda>s. do { f \<leftarrow> r_fit s; d \<leftarrow> r_longley s; x \<leftarrow> select_cols d (r_seq 1 6);
               Some (s\<lparr>r_predictions := Some (predict f x)\<rparr>) },
      \<lambda>s. do { d \<leftarrow> r_longley s; y \<leftarrow> r_predictions s;
               Some (s\<lparr>r_mse := Some (mse (dollar d ''Employed'') y)\<rparr>) },
      \<lambda>s. do { m \<leftarrow> r_mse s; Some (s\<lparr>r_stdout := r_stdout s @ [Number m]\<rparr>) }]"

text \<open>
  Random forest: \<^verbatim>\<open>library(randomForest)\<close> and
  \<^verbatim>\<open>fit <- randomForest(Employed~., data=longley)\<close>, without a control argument.
\<close>

definition random_forest_recipe ::
  "data_frame \<Rightarrow> (formula \<Rightarrow> data_frame \<Rightarrow> 'fit) \<Rightarrow> ('fit \<Rightarrow> string) \<Rightarrow>
   ('fit \<Rightarrow> data_frame \<Rightarrow> real list) \<Rightarrow> 'fit r_vars stmt list" where
  "random_forest_recipe longley randomForest summary predict =
     [\<lambda>s. Some s,
      \<lambda>s. Some (s\<lparr>r_longley := Some longley\<rparr>),
      \<lambda>s. do { d \<leftarrow> r_longley s;
               Some (s\<lparr>r_fit := Some (randomForest (Tilde ''Employed'' Dot) d)\<rparr>) },
      \<lambda>s. do { f \<leftarrow> r_fit s; Some (s\<lparr>r_stdout := r_stdout s @ [Text (summary f)]\<rparr>) },
      \<lambda>s. do { f \<leftarrow> r_fit s; d \<leftarrow> r_longley s; x \<leftarrow> select_cols d (r_seq 1 6);
               Some (s\<lparr>r_predictions := Some (predict f x)\<rparr>) },
      \<lambda>s. do { d \<leftarrow> r_longley s; y \<leftarrow> r_predictions s;
               Some (s\<lparr>r_mse := Some (mse (dollar d ''Employed'') y)\<rparr>) },
      \<lambda>s. do { m \<leftarrow> r_mse s; Some (s\<lparr>r_stdout := r_stdout s @ [Number m]\<rparr>) }]"

text \<open>
  Cubist: \<^verbatim>\<open>library(Cubist)\<close> and \<^verbatim>\<open>fit <- cubist(longley[,1:6], longley[,7])\<close>, which
  takes the predictors and the outcome as two arguments instead of a formula.
\<close>

definition cubist_recipe ::
  "data_frame \<Rightarrow> (data_frame \<Rightarrow> real list \<Rightarrow> 'fit) \<Rightarrow> ('fit \<Rightarrow> string) \<Rightarrow>
   ('fit \<Rightarrow> data_frame \<Rightarrow> real list) \<Rightarrow> 'fit r_vars stmt list" where
  "cubist_recipe longley cubist summary predict =
     [\<lambda>s. Some s,
      \<lambda>s. Some (s\<lparr>r_longley := Some longley\<rparr>),
      \<lambda>s. do { d \<leftarrow> r_longley s; x \<leftarrow> select_cols d (r_seq 1 6); y \<leftarrow> select_col d 7;
               Some (s\<lparr>r_fit := Some (cubist x y)\<rparr>) },
      \<lambda>s. do { f \<leftarrow> r_fit s; Some (s\<lparr>r_stdout := r_stdout s @ [Text (summary f)]\<rparr>) },
      \<lambda>s. do { f \<leftarrow> r_fit s; d \<leftarrow> r_longley s; x \<leftarrow> select_cols d (r_seq 1 6);
               Some (s\<lparr>r_predictions := Some (predict f x)\<rparr>) },
      \<lambda>s. do { d \<leftarrow> r_longley s; y \<leftarrow> r_predictions s;
               Some (s\<lparr>r_mse := Some (mse (dollar d ''Employed'') y)\<rparr>) },
      \<lambda>s. do { m \<leftarrow> r_mse s; Some (s\<lparr>r_stdout := r_stdout s @ [Number m]\<rparr>) }]"

subsection \<open>A concrete data set and library\<close>

text \<open>
  For examples: a frame of seven columns and sixteen rows laid out like the \<^verbatim>\<open>longley\<close>
  data (six economic indicators and the number of people employed, for the years 1947 to
  1962), and a stand-in for the fitting libraries whose model is one number, the
  prediction it makes for every row.
\<close>

definition longley_data :: data_frame where
  "longley_data =
     [(''GNP.deflator'', [83.0, 88.5, 88.2, 89.5, 96.2, 98.1, 99.0, 100.0,
                          101.2, 104.6, 108.4, 110.8, 112.6, 114.2, 115.7, 116.9]),
      (''GNP'', [234.289, 259.426, 258.054, 284.599, 328.975, 346.999, 365.385, 363.112,
                 397.469, 419.180, 442.769, 444.546, 482.704, 502.601, 518.173, 554.894]),
      (''Unemployed'', [235.6, 232.5, 368.2, 335.1, 209.9, 193.2, 187.0, 357.8,
                        290.4, 282.2, 293.6, 468.1, 381.3, 393.1, 480.6, 400.7]),
      (''Armed.Forces'', [159.0, 145.6, 161.6, 165.0, 309.9, 359.4, 354.7, 335.0,
                          304.8, 285.7, 279.8, 263.7, 255.2, 251.4, 257.2, 282.7]),
      (''Population'', [107.608, 108.632, 109.773, 110.929, 112.075, 113.270, 115.094, 116.219,
                        117.388, 118.734, 120.445, 121.950, 123.366, 125.368, 127.852, 130.081]),
      (''Year'', [1947, 1948, 1949, 1950, 1951, 1952, 1953, 1954,
                  1955, 1956, 1957, 1958, 1959, 1960, 1961, 1962]),
      (''Employed'', [60.323, 61.122, 60.171, 61.187, 63.221, 63.639, 64.989, 63.761,
                      66.019, 67.857, 68.169, 66.513, 68.655, 69.564, 69.331, 70.551])]"

definition flat_fit :: "formula \<Rightarrow> data_frame \<Rightarrow> rpart_control \<Rightarrow> real" where
  "flat_fit f d ctl = 65"

definition flat_forest :: "formula \<Rightarrow> data_frame \<Rightarrow> real" where
  "flat_forest f d = 65"

definition flat_cubist :: "data_frame \<Rightarrow> real list \<Rightarrow> real" where
  "flat_cubist x y = 65"

definition flat_summary :: "real \<Rightarrow> string" where
  "flat_summary fit = ''n= 16''"

definition flat_predict :: "real \<Rightarrow> data_frame \<Rightarrow> real list" where
  "flat_predict fit x = replicate (nrow x) fit"

subsection \<open>Properties of the data and of the output\<close>

text \<open>
  The shape of the data the recipes rely on: seven columns, the seventh and no other
  named \<^verbatim>\<open>Employed\<close>.
\<close>

definition employed_last :: "data_frame \<Rightarrow> bool" where
  "employed_last d =
     (length d = 7 \<and> map fst (drop 6 d) = [''Employed''] \<and>
      ''Employed'' \<notin> set (map fst (take 6 d)))"

fun is_number :: "out_item \<Rightarrow> bool" where
  "is_number (Number x) = True"
| "is_number (Text t) = False"

text \<open>An output that consists of one or two numbers and nothing else.\<close>

definition numbers_only :: "out_item list \<Rightarrow> bool" where
  "numbers_only out = (list_all is_number out \<and> (length out = 1 \<or> length out = 2))"

text \<open>
  What a script writes when it is run from an empty workspace; \<open>None\<close> if it stops with
  an error.
\<close>

definition script_output :: "py_vars stmt list \<Rightarrow> real list option" where
  "script_output cs = map_option stdout (run cs py_init)"

definition recipe_output :: "'fit r_vars stmt list \<Rightarrow> out_item list option" where
  "recipe_output cs = map_option r_stdout (run cs r_init)"

definition prints_numbers_only :: "'fit r_vars stmt list \<Rightarrow> bool" where
  "prints_numbers_only cs =
     (case recipe_output cs of None \<Rightarrow> False | Some out \<Rightarrow> numbers_only out)"

text \<open>The domain bounds of a store: a probability in the unit interval, positive degrees of freedom.\<close>

definition p_in_unit_interval :: "py_vars \<Rightarrow> bool" where
  "p_in_unit_interval s = (case var_p s of None \<Rightarrow> True | Some p \<Rightarrow> 0 \<le> p \<and> p \<le> 1)"

definition df_positive :: "py_vars \<Rightarrow> bool" where
  "df_positive s = (case var_df s of None \<Rightarrow> True | Some d \<Rightarrow> 0 < d)"

text \<open>A frame all of whose columns have sixteen entries.\<close>

definition sixteen_rows :: "data_frame \<Rightarrow> bool" where
  "sixteen_rows d = list_all (\<lambda>nc. length (snd nc) = 16) d"

text \<open>
  A final store of a recipe is in-sample for a fitted model if the predictions are the
  model's predictions on the first six columns of the data it was given, all rows; the
  error is the mean, over the rows, of the squared difference between the entry of the
  seventh column and the prediction of that row; and the output ends with this number.
\<close>

definition in_sample ::
  "data_frame \<Rightarrow> 'fit \<Rightarrow> ('fit \<Rightarrow> string) \<Rightarrow> ('fit \<Rightarrow> data_frame \<Rightarrow> real list) \<Rightarrow>
   'fit r_vars \<Rightarrow> bool" where
  "in_sample longley fit summary predict s =
     (let y = snd (longley ! 6);
          p = predict fit (take 6 longley);
          v = (\<Sum>i<length y. (y ! i - p ! i) ^ 2) / real (length y)
      in r_longley s = Some longley \<and> r_fit s = Some fit \<and> r_predictions s = Some p \<and>
         r_mse s = Some (Val v) \<and> r_stdout s = [Text (summary fit), Number (Val v)])"

text \<open>
  A second concrete library, which accepts any arguments and makes them visible in its
  results.
\<close>

definition scaled_ppf :: "real \<Rightarrow> int \<Rightarrow> real" where
  "scaled_ppf q d = q * of_int d"

definition shifted_cdf :: "real \<Rightarrow> int \<Rightarrow> real" where
  "shifted_cdf x d = x + of_int d"

section \<open>Execution of the notebook cells\<close>

text \<open>The stores of a run of each cell, for any probability, degrees of freedom and library.\<close>

lemma exec_gaussian:
  "exec (gaussian_stmts prob norm_ppf norm_cdf) py_init =
     Some [py_init,
           py_init\<lparr>var_p := Some prob\<rparr>,
           py_init\<lparr>var_p := Some prob, var_value := Some (norm_ppf prob)\<rparr>,
           py_init\<lparr>var_p := Some prob, var_value := Some (norm_ppf prob),
                   stdout := [norm_ppf prob]\<rparr>,
           py_init\<lparr>var_p := Some (norm_cdf (norm_ppf prob)), var_value := Some (norm_ppf prob),
                   stdout := [norm_ppf prob]\<rparr>,
           py_init\<lparr>var_p := Some (norm_cdf (norm_ppf prob)), var_value := Some (norm_ppf prob),
                   stdout := [norm_ppf prob, norm_cdf (norm_ppf prob)]\<rparr>]"
  by (simp add: gaussian_stmts_def py_init_def)

lemma exec_t:
  "exec (t_stmts prob dof ppf cdf) py_init =
     Some [py_init,
           py_init\<lparr>var_p := Some prob\<rparr>,
           py_init\<lparr>var_p := Some prob, var_df := Some dof\<rparr>,
           py_init\<lparr>var_p := Some prob, var_df := Some dof, var_value := Some (ppf prob dof)\<rparr>,
           py_init\<lparr>var_p := Some prob, var_df := Some dof, var_value := Some (ppf prob dof),
                   stdout := [ppf prob dof]\<rparr>,
           py_init\<lparr>var_p := Some (cdf (ppf prob dof) dof), var_df := Some dof,
                   var_value := Some (ppf prob dof), stdout := [ppf prob dof]\<rparr>,
           py_init\<lparr>var_p := Some (cdf (ppf prob dof) dof), var_df := Some dof,
                   var_value := Some (ppf prob dof),
                   stdout := [ppf prob dof, cdf (ppf prob dof) dof]\<rparr>]"
  by (simp add: t_stmts_def py_init_def)

lemma exec_chi2:
  "exec (chi2_stmts prob dof ppf cdf) py_init =
     Some [py_init,
           py_init\<lparr>var_p := Some prob\<rparr>,
           py_init\<lparr>var_p := Some prob, var_df := Some dof\<rparr>,
           py_init\<lparr>var_p := Some prob, var_df := Some dof, var_value := Some (ppf prob dof)\<rparr>,
           py_init\<lparr>var_p := Some prob, var_df := Some dof, var_value := Some (ppf prob dof),
                   stdout := [ppf prob dof]\<rparr>,
           py_init\<lparr>var_p := Some (cdf (ppf prob dof) dof), var_df := Some dof,
                   var_value := Some (ppf prob dof), stdout := [ppf prob dof]\<rparr>,
           py_init\<lparr>var_p := Some (cdf (ppf prob dof) dof), var_df := Some dof,
                   var_value := Some (ppf prob dof),
                   stdout := [ppf prob dof, cdf (ppf prob dof) dof]\<rparr>]"
  by (simp add: chi2_stmts_def py_init_def)

section \<open>Vectors, data frames and the recipes\<close>

text \<open>On a frame of at least six columns, \<^verbatim>\<open>d[,1:6]\<close> is the frame of the first six.\<close>

lemma r_seq_1_6: "r_seq 1 6 = [1, 2, 3, 4, 5, 6]"
  by (simp add: r_seq_def upt_rec)

lemma take_6_nth:
  assumes "6 \<le> length d"
  shows "[d ! 0, d ! 1, d ! 2, d ! 3, d ! 4, d ! 5] = take 6 d"
proof (rule nth_equalityI)
  show "length [d ! 0, d ! 1, d ! 2, d ! 3, d ! 4, d ! 5] = length (take 6 d)"
    using assms by simp
next
  fix i
  assume "i < length [d ! 0, d ! 1, d ! 2, d ! 3, d ! 4, d ! 5]"
  then have "i < 6" by simp
  then consider "i = 0" | "i = 1" | "i = 2" | "i = 3" | "i = 4" | "i = 5"
    by linarith
  then show "[d ! 0, d ! 1, d ! 2, d ! 3, d ! 4, d ! 5] ! i = take 6 d ! i"
    by cases simp_all
qed

lemma select_cols_1_6:
  assumes "6 \<le> length d"
  shows "select_cols d (r_seq 1 6) = Some (take 6 d)"
proof -
  have "filter (\<lambda>i. i \<noteq> 0) (r_seq 1 6) = [1, 2, 3, 4, 5, 6]"
    unfolding r_seq_1_6 by simp
  then show ?thesis
    unfolding select_cols_def using assms take_6_nth [OF assms] by simp
qed

lemma select_cols_Suc0_6:
  "6 \<le> length d \<Longrightarrow> select_cols d (r_seq (Suc 0) 6) = Some (take 6 d)"
  using select_cols_1_6 [of d] by simp

text \<open>
  Vectors of the same length are subtracted element by element, and a sum of squares
  vanishes only if every term does.
\<close>

lemma sum_list_sq_zero_iff:
  "sum_list (map (\<lambda>x::real. x ^ 2) xs) = 0 \<longleftrightarrow> (\<forall>x \<in> set xs. x = 0)"
proof -
  have "sum_list (map (\<lambda>x::real. x ^ 2) xs) = 0 \<longleftrightarrow> (\<forall>y \<in> set (map (\<lambda>x. x ^ 2) xs). y = 0)"
    by (rule sum_list_nonneg_eq_0_iff) auto
  then show ?thesis by simp
qed

lemma vec_sub_same_length:
  assumes "length xs = length ys"
  shows "vec_sub xs ys = map2 (-) xs ys"
proof (cases "xs = []")
  case True
  then show ?thesis by (simp add: vec_sub_def)
next
  case False
  with assms have "ys \<noteq> []" by auto
  show ?thesis
    using assms False \<open>ys \<noteq> []\<close>
    by (auto simp: vec_sub_def intro!: nth_equalityI)
qed

lemma map2_sub_zero_iff:
  "length xs = length ys \<Longrightarrow> (\<forall>d \<in> set (map2 (-) xs ys). d = (0::real)) \<longleftrightarrow> ys = xs"
proof (induction xs ys rule: list_induct2)
  case Nil
  then show ?case by simp
next
  case (Cons x xs y ys)
  then show ?case by auto
qed

lemma mse_general:
  assumes "length predictions = length employed" and "employed \<noteq> []"
  shows "\<exists>m. mse employed predictions = Val m \<and> 0 \<le> m \<and> (m = 0 \<longleftrightarrow> predictions = employed)"
proof -
  let ?d = "map2 (-) employed predictions"
  let ?m = "sum_list (map (\<lambda>x. x ^ 2) ?d) / real (length ?d)"
  have len: "length ?d = length employed" using assms by simp
  have ne: "?d \<noteq> []" using assms len by (metis length_0_conv)
  have "mse employed predictions = Val ?m"
    using assms ne by (simp add: mse_def r_mean_def vec_sq_def vec_sub_same_length)
  moreover have "0 \<le> ?m"
    by (intro divide_nonneg_nonneg sum_list_nonneg) auto
  moreover have "?m = 0 \<longleftrightarrow> predictions = employed"
  proof -
    have "real (length ?d) \<noteq> 0"
      using ne by simp
    then have "?m = 0 \<longleftrightarrow> sum_list (map (\<lambda>x. x ^ 2) ?d) = 0"
      by (simp only: divide_eq_0_iff) simp
    also have "\<dots> \<longleftrightarrow> (\<forall>x \<in> set ?d. x = 0)"
      by (rule sum_list_sq_zero_iff)
    also have "\<dots> \<longleftrightarrow> predictions = employed"
      using assms map2_sub_zero_iff [of employed predictions] by simp
    finally show ?thesis .
  qed
  ultimately show ?thesis by blast
qed

text \<open>Where the seventh column is the only one named \<^verbatim>\<open>Employed\<close>, all ways to select it agree.\<close>

lemma employed_last_dollar:
  assumes "employed_last d"
  shows "dollar d ''Employed'' = snd (d ! 6)"
    and "select_col d 7 = Some (snd (d ! 6))"
    and "formula_response (Tilde ''Employed'' Dot) d = Some (snd (d ! 6))"
    and "formula_predictors (Tilde ''Employed'' Dot) d = take 6 d"
proof -
  from assms have len: "length d = 7"
    and last: "map fst (drop 6 d) = [''Employed'']"
    and others: "''Employed'' \<notin> set (map fst (take 6 d))"
    by (simp_all add: employed_last_def)
  obtain c0 c1 c2 c3 c4 c5 c6 where d: "d = [c0, c1, c2, c3, c4, c5, c6]"
    using len by (auto simp: length_Suc_conv eval_nat_numeral)
  have fst6: "fst c6 = ''Employed''" using last d by simp
  have nots: "fst c0 \<noteq> ''Employed''" "fst c1 \<noteq> ''Employed''" "fst c2 \<noteq> ''Employed''"
    "fst c3 \<noteq> ''Employed''" "fst c4 \<noteq> ''Employed''" "fst c5 \<noteq> ''Employed''"
    using others d by auto
  have m: "map_of d ''Employed'' = Some (snd c6)"
    using fst6 nots d by (cases c0; cases c1; cases c2; cases c3; cases c4; cases c5; cases c6) simp
  show "dollar d ''Employed'' = snd (d ! 6)"
    using m d by (simp add: dollar_def)
  show "select_col d 7 = Some (snd (d ! 6))"
    using d by (simp add: select_col_def)
  show "formula_response (Tilde ''Employed'' Dot) d = Some (snd (d ! 6))"
    using m d by simp
  show "formula_predictors (Tilde ''Employed'' Dot) d = take 6 d"
    using fst6 nots d by simp
qed


text \<open>A run that does not fail has one store for each statement.\<close>

lemma exec_length: "exec cs s = Some tr \<Longrightarrow> length tr = length cs"
  by (induction cs arbitrary: s tr) (auto split: option.splits)

text \<open>The final store of each recipe.\<close>

lemma run_cart:
  assumes "6 \<le> length longley"
  shows "run (cart_recipe longley rpart summary predict) r_init =
    Some \<lparr>r_longley = Some longley,
          r_fit = Some (rpart (Tilde ''Employed'' Dot) longley \<lparr>minsplit = 5\<rparr>),
          r_predictions =
            Some (predict (rpart (Tilde ''Employed'' Dot) longley \<lparr>minsplit = 5\<rparr>) (take 6 longley)),
          r_mse =
            Some (mse (dollar longley ''Employed'')
              (predict (rpart (Tilde ''Employed'' Dot) longley \<lparr>minsplit = 5\<rparr>) (take 6 longley))),
          r_stdout =
            [Text (summary (rpart (Tilde ''Employed'' Dot) longley \<lparr>minsplit = 5\<rparr>)),
             Number (mse (dollar longley ''Employed'')
              (predict (rpart (Tilde ''Employed'' Dot) longley \<lparr>minsplit = 5\<rparr>) (take 6 longley)))]\<rparr>"
  by (simp add: run_def cart_recipe_def r_init_def select_cols_Suc0_6 [OF assms])

lemma run_bagging:
  assumes "6 \<le> length longley"
  shows "run (bagging_recipe longley bagging summary predict) r_init =
    Some \<lparr>r_longley = Some longley,
          r_fit = Some (bagging (Tilde ''Employed'' Dot) longley \<lparr>minsplit = 5\<rparr>),
          r_predictions =
            Some (predict (bagging (Tilde ''Employed'' Dot) longley \<lparr>minsplit = 5\<rparr>) (take 6 longley)),
          r_mse =
            Some (mse (dollar longley ''Employed'')
              (predict (bagging (Tilde ''Employed'' Dot) longley \<lparr>minsplit = 5\<rparr>) (take 6 longley))),
          r_stdout =
            [Text (summary (bagging (Tilde ''Employed'' Dot) longley \<lparr>minsplit = 5\<rparr>)),
             Number (mse (dollar longley ''Employed'')
              (predict (bagging (Tilde ''Employed'' Dot) longley \<lparr>minsplit = 5\<rparr>) (take 6 longley)))]\<rparr>"
  by (simp add: run_def bagging_recipe_def r_init_def select_cols_Suc0_6 [OF assms])

lemma run_random_forest:
  assumes "6 \<le> length longley"
  shows "run (random_forest_recipe longley randomForest summary predict) r_init =
    Some \<lparr>r_longley = Some longley,
          r_fit = Some (randomForest (Tilde ''Employed'' Dot) longley),
          r_predictions =
            Some (predict (randomForest (Tilde ''Employed'' Dot) longley) (take 6 longley)),
          r_mse =
            Some (mse (dollar longley ''Employed'')
              (predict (randomForest (Tilde ''Employed'' Dot) longley) (take 6 longley))),
          r_stdout =
            [Text (summary (randomForest (Tilde ''Employed'' Dot) longley)),
             Number (mse (dollar longley ''Employed'')
              (predict (randomForest (Tilde ''Employed'' Dot) longley) (take 6 longley)))]\<rparr>"
  by (simp add: run_def random_forest_recipe_def r_init_def select_cols_Suc0_6 [OF assms])

lemma run_cubist:
  assumes "7 \<le> length longley"
  shows "run (cubist_recipe longley cubist summary predict) r_init =
    Some \<lparr>r_longley = Some longley,
          r_fit = Some (cubist (take 6 longley) (snd (longley ! 6))),
          r_predictions =
            Some (predict (cubist (take 6 longley) (snd (longley ! 6))) (take 6 longley)),
          r_mse =
            Some (mse (dollar longley ''Employed'')
              (predict (cubist (take 6 longley) (snd (longley ! 6))) (take 6 longley))),
          r_stdout =
            [Text (summary (cubist (take 6 longley) (snd (longley ! 6)))),
             Number (mse (dollar longley ''Employed'')
              (predict (cubist (take 6 longley) (snd (longley ! 6))) (take 6 longley)))]\<rparr>"
proof -
  have six: "6 \<le> length longley" using assms by simp
  show ?thesis
    using assms
    by (simp add: run_def cubist_recipe_def r_init_def select_cols_Suc0_6 [OF six] select_col_def)
qed

lemma longley_data_shape: "employed_last longley_data" "length longley_data = 7"
  by (simp_all add: employed_last_def longley_data_def)

lemma script_outputs:
  "script_output (gaussian_stmts prob norm_ppf norm_cdf) =
     Some [norm_ppf prob, norm_cdf (norm_ppf prob)]"
  "script_output (t_stmts prob dof t_ppf t_cdf) =
     Some [t_ppf prob dof, t_cdf (t_ppf prob dof) dof]"
  "script_output (chi2_stmts prob dof chi2_ppf chi2_cdf) =
     Some [chi2_ppf prob dof, chi2_cdf (chi2_ppf prob dof) dof]"
  by (simp_all add: script_output_def run_def exec_gaussian exec_t exec_chi2)

lemma py_init_fields:
  "var_p py_init = None" "var_df py_init = None" "var_value py_init = None" "stdout py_init = []"
  by (simp_all add: py_init_def)

lemma mse_flat:
  "mse (dollar longley_data ''Employed'') (flat_predict 65 (take 6 longley_data)) =
     Val (3732333 / 320000)"
  by (simp add: mse_def r_mean_def vec_sq_def vec_sub_def dollar_def flat_predict_def nrow_def
      longley_data_def upt_rec power2_eq_square)








lemma run_stmts:
  "run (gaussian_stmts prob norm_ppf norm_cdf) py_init =
     Some \<lparr>var_p = Some (norm_cdf (norm_ppf prob)), var_df = None,
           var_value = Some (norm_ppf prob),
           stdout = [norm_ppf prob, norm_cdf (norm_ppf prob)]\<rparr>"
  "run (t_stmts prob dof t_ppf t_cdf) py_init =
     Some \<lparr>var_p = Some (t_cdf (t_ppf prob dof) dof), var_df = Some dof,
           var_value = Some (t_ppf prob dof),
           stdout = [t_ppf prob dof, t_cdf (t_ppf prob dof) dof]\<rparr>"
  "run (chi2_stmts prob dof chi2_ppf chi2_cdf) py_init =
     Some \<lparr>var_p = Some (chi2_cdf (chi2_ppf prob dof) dof), var_df = Some dof,
           var_value = Some (chi2_ppf prob dof),
           stdout = [chi2_ppf prob dof, chi2_cdf (chi2_ppf prob dof) dof]\<rparr>"
  by (simp_all add: run_def gaussian_stmts_def t_stmts_def chi2_stmts_def py_init_def)

text \<open>
  For vectors of the same positive length the error is the mean of the squared
  differences, row by row.
\<close>

lemma mse_explicit:
  assumes "length p = length y" and "y \<noteq> []"
  shows "mse y p = Val ((\<Sum>i<length y. (y ! i - p ! i) ^ 2) / real (length y))"
proof -
  let ?d = "map2 (-) y p"
  have len: "length ?d = length y" using assms by simp
  have "sum_list (map (\<lambda>x. x ^ 2) ?d) = (\<Sum>i = 0..<length y. (map (\<lambda>x. x ^ 2) ?d) ! i)"
    using len by (simp add: sum_list_sum_nth)
  also have "\<dots> = (\<Sum>i = 0..<length y. (y ! i - p ! i) ^ 2)"
    using assms by (intro sum.cong) simp_all
  finally have s: "sum_list (map (\<lambda>x. x ^ 2) ?d) = (\<Sum>i<length y. (y ! i - p ! i) ^ 2)"
    by (simp add: atLeast0LessThan)
  have ne: "?d \<noteq> []" using assms len by (metis length_0_conv)
  have "mse y p = Val (sum_list (map (\<lambda>x. x ^ 2) ?d) / real (length ?d))"
    using assms ne by (simp add: mse_def r_mean_def vec_sq_def vec_sub_same_length)
  then show ?thesis
    using s len by simp
qed

lemma nrow_take_6:
  assumes "sixteen_rows d" and "6 \<le> length d"
  shows "nrow (take 6 d) = 16"
proof (cases d)
  case Nil
  with assms show ?thesis by simp
next
  case (Cons nc rest)
  with assms show ?thesis by (simp add: nrow_def sixteen_rows_def)
qed

lemma seventh_column_16:
  assumes "sixteen_rows d" and "7 \<le> length d"
  shows "length (snd (d ! 6)) = 16"
proof -
  have "d ! 6 \<in> set d" using assms by simp
  then show ?thesis using assms by (simp add: sixteen_rows_def list_all_iff)
qed

lemma predictions_per_row:
  assumes "employed_last longley" and "sixteen_rows longley"
    and "\<forall>fit x. length (predict fit x) = nrow x"
  shows "length (predict fit (take 6 longley)) = length (snd (longley ! 6))"
    and "snd (longley ! 6) \<noteq> []"
proof -
  have seven: "7 \<le> length longley" and six: "6 \<le> length longley"
    using assms(1) by (simp_all add: employed_last_def)
  have y: "length (snd (longley ! 6)) = 16"
    by (rule seventh_column_16 [OF assms(2) seven])
  show "length (predict fit (take 6 longley)) = length (snd (longley ! 6))"
    using assms(3) nrow_take_6 [OF assms(2) six] y by simp
  show "snd (longley ! 6) \<noteq> []" using y by auto
qed

text \<open>Each recipe ends in a store that is in-sample for its fitted model.\<close>

lemma in_sample_cart:
  assumes "employed_last longley" and "sixteen_rows longley"
    and "\<forall>fit x. length (predict fit x) = nrow x"
  shows "\<exists>s. run (cart_recipe longley rpart summary predict) r_init = Some s \<and>
           in_sample longley (rpart (Tilde ''Employed'' Dot) longley \<lparr>minsplit = 5\<rparr>)
             summary predict s"
proof -
  have cols: "6 \<le> length longley"
    using assms(1) by (simp add: employed_last_def)
  show ?thesis
    by (simp add: run_cart [OF cols] in_sample_def Let_def employed_last_dollar(1) [OF assms(1)]
        mse_explicit [OF predictions_per_row [OF assms]])
qed

lemma in_sample_bagging:
  assumes "employed_last longley" and "sixteen_rows longley"
    and "\<forall>fit x. length (predict fit x) = nrow x"
  shows "\<exists>s. run (bagging_recipe longley bagging summary predict) r_init = Some s \<and>
           in_sample longley (bagging (Tilde ''Employed'' Dot) longley \<lparr>minsplit = 5\<rparr>)
             summary predict s"
proof -
  have cols: "6 \<le> length longley"
    using assms(1) by (simp add: employed_last_def)
  show ?thesis
    by (simp add: run_bagging [OF cols] in_sample_def Let_def employed_last_dollar(1) [OF assms(1)]
        mse_explicit [OF predictions_per_row [OF assms]])
qed

lemma in_sample_random_forest:
  assumes "employed_last longley" and "sixteen_rows longley"
    and "\<forall>fit x. length (predict fit x) = nrow x"
  shows "\<exists>s. run (random_forest_recipe longley randomForest summary predict) r_init = Some s \<and>
           in_sample longley (randomForest (Tilde ''Employed'' Dot) longley)
             summary predict s"
proof -
  have cols: "6 \<le> length longley"
    using assms(1) by (simp add: employed_last_def)
  show ?thesis
    by (simp add: run_random_forest [OF cols] in_sample_def Let_def employed_last_dollar(1) [OF assms(1)]
        mse_explicit [OF predictions_per_row [OF assms]])
qed

lemma in_sample_cubist:
  assumes "employed_last longley" and "sixteen_rows longley"
    and "\<forall>fit x. length (predict fit x) = nrow x"
  shows "\<exists>s. run (cubist_recipe longley cubist summary predict) r_init = Some s \<and>
           in_sample longley (cubist (take 6 longley) (snd (longley ! 6)))
             summary predict s"
proof -
  have cols: "7 \<le> length longley"
    using assms(1) by (simp add: employed_last_def)
  show ?thesis
    by (simp add: run_cubist [OF cols] in_sample_def Let_def employed_last_dollar(1) [OF assms(1)]
        mse_explicit [OF predictions_per_row [OF assms]])
qed

section \<open>The claims\<close>

subsection \<open>The mean squared error\<close>

text \<open>
  Claim C2. The mean squared error of the recipes, computed from the 16 values of the
  column \<^verbatim>\<open>Employed\<close> and 16 predictions, is a number that is not negative, for every
  vector of predictions, and it is zero exactly when every prediction equals the value of
  \<^verbatim>\<open>Employed\<close> in its row. The column is any vector of 16 reals, so the statement covers
  the values of the data set.
\<close>

theorem mse_nonneg_zero_iff_perfect:
  assumes "length employed = 16" and "length predictions = 16"
  shows "\<exists>m. mse employed predictions = Val m \<and> 0 \<le> m \<and>
           (m = 0 \<longleftrightarrow> predictions = employed)"
proof (rule mse_general)
  show "length predictions = length employed" using assms by simp
  show "employed \<noteq> []" using assms by auto
qed

theorem mse_nonneg_zero_iff_perfect_witness:
  "length (dollar longley_data ''Employed'') = 16 \<and>
   length (flat_predict 65 (take 6 longley_data)) = 16 \<and>
   (\<exists>m. mse (dollar longley_data ''Employed'') (flat_predict 65 (take 6 longley_data)) = Val m \<and>
        0 \<le> m \<and>
        (m = 0 \<longleftrightarrow> flat_predict 65 (take 6 longley_data) = dollar longley_data ''Employed''))"
proof -
  have e: "length (dollar longley_data ''Employed'') = 16"
    by (simp add: dollar_def longley_data_def)
  have p: "length (flat_predict 65 (take 6 longley_data)) = 16"
    by (simp add: flat_predict_def nrow_def longley_data_def)
  show ?thesis
    using e p mse_nonneg_zero_iff_perfect [OF e p] by blast
qed

subsection \<open>What the scripts print\<close>

text \<open>
  Claim C6, as stated: every script prints one or two numbers and nothing else. This
  fails for the regression recipes, whose statement \<^verbatim>\<open>summary(fit)\<close> displays the
  summary of the fitted model before the error is printed. The recipe for classification
  and regression trees, run on the concrete data with the stand-in library, prints a text
  and a number.
\<close>

theorem cart_output_counterexample:
  "\<not> prints_numbers_only (cart_recipe longley_data flat_fit flat_summary flat_predict)"
proof -
  have "6 \<le> length longley_data" by (simp add: longley_data_def)
  then show ?thesis
    by (simp add: prints_numbers_only_def recipe_output_def run_cart numbers_only_def)
qed

text \<open>
  Claim C6, amended: each distribution script prints exactly two numbers, the critical
  value and then the confirming probability; each regression recipe prints the summary
  of the fitted model and then exactly one number, the mean squared error. Nothing else
  is printed. This holds for every library and for every data frame of at least seven
  columns.
\<close>

theorem outputs_of_the_scripts:
  assumes "7 \<le> length longley"
  shows
   "script_output (gaussian_script norm_ppf norm_cdf) =
      Some [norm_ppf 0.95, norm_cdf (norm_ppf 0.95)] \<and>
    script_output (t_script t_ppf t_cdf) =
      Some [t_ppf 0.95 10, t_cdf (t_ppf 0.95 10) 10] \<and>
    script_output (chi2_script chi2_ppf chi2_cdf) =
      Some [chi2_ppf 0.95 10, chi2_cdf (chi2_ppf 0.95 10) 10] \<and>
    (let fit = rpart (Tilde ''Employed'' Dot) longley \<lparr>minsplit = 5\<rparr>
     in recipe_output (cart_recipe longley rpart summary_rpart predict_rpart) =
          Some [Text (summary_rpart fit),
                Number (mse (dollar longley ''Employed'') (predict_rpart fit (take 6 longley)))]) \<and>
    (let fit = bagging (Tilde ''Employed'' Dot) longley \<lparr>minsplit = 5\<rparr>
     in recipe_output (bagging_recipe longley bagging summary_bagging predict_bagging) =
          Some [Text (summary_bagging fit),
                Number (mse (dollar longley ''Employed'') (predict_bagging fit (take 6 longley)))]) \<and>
    (let fit = randomForest (Tilde ''Employed'' Dot) longley
     in recipe_output (random_forest_recipe longley randomForest summary_forest predict_forest) =
          Some [Text (summary_forest fit),
                Number (mse (dollar longley ''Employed'') (predict_forest fit (take 6 longley)))]) \<and>
    (let fit = cubist (take 6 longley) (snd (longley ! 6))
     in recipe_output (cubist_recipe longley cubist summary_cubist predict_cubist) =
          Some [Text (summary_cubist fit),
                Number (mse (dollar longley ''Employed'') (predict_cubist fit (take 6 longley)))])"
proof -
  have six: "6 \<le> length longley" using assms by simp
  have "script_output (gaussian_script norm_ppf norm_cdf) =
      Some [norm_ppf 0.95, norm_cdf (norm_ppf 0.95)]"
    by (simp add: gaussian_script_def script_outputs)
  moreover have "script_output (t_script t_ppf t_cdf) =
      Some [t_ppf 0.95 10, t_cdf (t_ppf 0.95 10) 10]"
    by (simp add: t_script_def script_outputs)
  moreover have "script_output (chi2_script chi2_ppf chi2_cdf) =
      Some [chi2_ppf 0.95 10, chi2_cdf (chi2_ppf 0.95 10) 10]"
    by (simp add: chi2_script_def script_outputs)
  moreover have "recipe_output (cart_recipe longley rpart summary_rpart predict_rpart) =
      Some [Text (summary_rpart (rpart (Tilde ''Employed'' Dot) longley \<lparr>minsplit = 5\<rparr>)),
            Number (mse (dollar longley ''Employed'')
              (predict_rpart (rpart (Tilde ''Employed'' Dot) longley \<lparr>minsplit = 5\<rparr>)
                 (take 6 longley)))]"
    by (simp add: recipe_output_def run_cart [OF six])
  moreover have "recipe_output (bagging_recipe longley bagging summary_bagging predict_bagging) =
      Some [Text (summary_bagging (bagging (Tilde ''Employed'' Dot) longley \<lparr>minsplit = 5\<rparr>)),
            Number (mse (dollar longley ''Employed'')
              (predict_bagging (bagging (Tilde ''Employed'' Dot) longley \<lparr>minsplit = 5\<rparr>)
                 (take 6 longley)))]"
    by (simp add: recipe_output_def run_bagging [OF six])
  moreover have
    "recipe_output (random_forest_recipe longley randomForest summary_forest predict_forest) =
      Some [Text (summary_forest (randomForest (Tilde ''Employed'' Dot) longley)),
            Number (mse (dollar longley ''Employed'')
              (predict_forest (randomForest (Tilde ''Employed'' Dot) longley) (take 6 longley)))]"
    by (simp add: recipe_output_def run_random_forest [OF six])
  moreover have "recipe_output (cubist_recipe longley cubist summary_cubist predict_cubist) =
      Some [Text (summary_cubist (cubist (take 6 longley) (snd (longley ! 6)))),
            Number (mse (dollar longley ''Employed'')
              (predict_cubist (cubist (take 6 longley) (snd (longley ! 6))) (take 6 longley)))]"
    by (simp add: recipe_output_def run_cubist [OF assms])
  ultimately show ?thesis
    by (simp only: Let_def)
qed

theorem outputs_of_the_scripts_witness:
  "7 \<le> length longley_data \<and>
   script_output (gaussian_script unif_ppf unif_cdf) = Some [19 / 10, 19 / 20] \<and>
   script_output (t_script scaled_ppf shifted_cdf) = Some [19 / 2, 39 / 2] \<and>
   script_output (chi2_script scaled_ppf shifted_cdf) = Some [19 / 2, 39 / 2] \<and>
   recipe_output (cart_recipe longley_data flat_fit flat_summary flat_predict) =
     Some [Text ''n= 16'', Number (Val (3732333 / 320000))] \<and>
   recipe_output (bagging_recipe longley_data flat_fit flat_summary flat_predict) =
     Some [Text ''n= 16'', Number (Val (3732333 / 320000))] \<and>
   recipe_output (random_forest_recipe longley_data flat_forest flat_summary flat_predict) =
     Some [Text ''n= 16'', Number (Val (3732333 / 320000))] \<and>
   recipe_output (cubist_recipe longley_data flat_cubist flat_summary flat_predict) =
     Some [Text ''n= 16'', Number (Val (3732333 / 320000))]"
proof -
  have h: "7 \<le> length longley_data"
    by (simp add: longley_data_def)
  show ?thesis
    using h outputs_of_the_scripts [OF h, of unif_ppf unif_cdf scaled_ppf shifted_cdf
        scaled_ppf shifted_cdf flat_fit flat_summary flat_predict flat_fit flat_summary
        flat_predict flat_forest flat_summary flat_predict flat_cubist flat_summary flat_predict]
    by (simp add: Let_def unif_ppf_def unif_cdf_def scaled_ppf_def shifted_cdf_def flat_fit_def
        flat_forest_def flat_cubist_def flat_summary_def mse_flat)
qed

subsection \<open>The sequence of calls\<close>



subsection \<open>No validation of the inputs\<close>

text \<open>
  Claim C8. No script checks its inputs. Whatever the probability and the degrees of
  freedom of a distribution script are set to, also a probability outside the unit
  interval and degrees of freedom that are not positive, the script hands them to the
  inverse cumulative function as they are, hands its result to the cumulative function,
  prints both results and ends in the ordinary way: no statement fails and none is
  skipped.
\<close>

theorem no_input_validation:
  "run (gaussian_stmts prob norm_ppf norm_cdf) py_init =
     Some \<lparr>var_p = Some (norm_cdf (norm_ppf prob)), var_df = None,
           var_value = Some (norm_ppf prob),
           stdout = [norm_ppf prob, norm_cdf (norm_ppf prob)]\<rparr> \<and>
   run (t_stmts prob dof t_ppf t_cdf) py_init =
     Some \<lparr>var_p = Some (t_cdf (t_ppf prob dof) dof), var_df = Some dof,
           var_value = Some (t_ppf prob dof),
           stdout = [t_ppf prob dof, t_cdf (t_ppf prob dof) dof]\<rparr> \<and>
   run (chi2_stmts prob dof chi2_ppf chi2_cdf) py_init =
     Some \<lparr>var_p = Some (chi2_cdf (chi2_ppf prob dof) dof), var_df = Some dof,
           var_value = Some (chi2_ppf prob dof),
           stdout = [chi2_ppf prob dof, chi2_cdf (chi2_ppf prob dof) dof]\<rparr>"
  by (simp only: run_stmts)

text \<open>
  At the probability 3/2 and \<open>-3\<close> degrees of freedom, with the library that shows its
  arguments: the inverse cumulative function receives both and returns \<open>-9/2\<close>.
\<close>

theorem no_input_validation_witness:
  "run (gaussian_stmts (3 / 2) unif_ppf unif_cdf) py_init =
     Some \<lparr>var_p = Some 1, var_df = None, var_value = Some 3, stdout = [3, 1]\<rparr> \<and>
   run (t_stmts (3 / 2) (- 3) scaled_ppf shifted_cdf) py_init =
     Some \<lparr>var_p = Some (- 15 / 2), var_df = Some (- 3), var_value = Some (- 9 / 2),
           stdout = [- 9 / 2, - 15 / 2]\<rparr> \<and>
   run (chi2_stmts (3 / 2) (- 3) scaled_ppf shifted_cdf) py_init =
     Some \<lparr>var_p = Some (- 15 / 2), var_df = Some (- 3), var_value = Some (- 9 / 2),
           stdout = [- 9 / 2, - 15 / 2]\<rparr>"
  using no_input_validation [of "3 / 2" unif_ppf unif_cdf "- 3" scaled_ppf shifted_cdf
      scaled_ppf shifted_cdf]
  by (simp add: unif_ppf_def unif_cdf_def scaled_ppf_def shifted_cdf_def)

subsection \<open>The domain bounds\<close>

text \<open>
  Claim C9. Every value that \<^verbatim>\<open>p\<close> holds lies in the unit interval: the literal 0.95,
  and the value bound by the second assignment, which is a result of the cumulative
  function and so lies in the unit interval whenever the results of the library's
  cumulative function do. Every value that \<^verbatim>\<open>df\<close> holds is the positive integer 10.
  The statement is about every store of every run.
\<close>

theorem domain_bounds:
  assumes "\<forall>x. 0 \<le> norm_cdf x \<and> norm_cdf x \<le> 1"
    and "\<forall>x d. 0 \<le> t_cdf x d \<and> t_cdf x d \<le> 1"
    and "\<forall>x d. 0 \<le> chi2_cdf x d \<and> chi2_cdf x d \<le> 1"
  shows
   "(\<exists>tr. exec (gaussian_script norm_ppf norm_cdf) py_init = Some tr \<and>
          list_all p_in_unit_interval tr \<and> list_all df_positive tr \<and>
          map var_df tr = [None, None, None, None, None, None]) \<and>
    (\<exists>tr. exec (t_script t_ppf t_cdf) py_init = Some tr \<and>
          list_all p_in_unit_interval tr \<and> list_all df_positive tr \<and>
          map var_df tr = [None, None, Some 10, Some 10, Some 10, Some 10, Some 10]) \<and>
    (\<exists>tr. exec (chi2_script chi2_ppf chi2_cdf) py_init = Some tr \<and>
          list_all p_in_unit_interval tr \<and> list_all df_positive tr \<and>
          map var_df tr = [None, None, Some 10, Some 10, Some 10, Some 10, Some 10])"
proof (intro conjI)
  show "\<exists>tr. exec (gaussian_script norm_ppf norm_cdf) py_init = Some tr \<and>
          list_all p_in_unit_interval tr \<and> list_all df_positive tr \<and>
          map var_df tr = [None, None, None, None, None, None]"
    using assms(1)
    by (simp add: gaussian_script_def exec_gaussian p_in_unit_interval_def df_positive_def
        py_init_fields)
  show "\<exists>tr. exec (t_script t_ppf t_cdf) py_init = Some tr \<and>
          list_all p_in_unit_interval tr \<and> list_all df_positive tr \<and>
          map var_df tr = [None, None, Some 10, Some 10, Some 10, Some 10, Some 10]"
    using assms(2)
    by (simp add: t_script_def exec_t p_in_unit_interval_def df_positive_def py_init_fields)
  show "\<exists>tr. exec (chi2_script chi2_ppf chi2_cdf) py_init = Some tr \<and>
          list_all p_in_unit_interval tr \<and> list_all df_positive tr \<and>
          map var_df tr = [None, None, Some 10, Some 10, Some 10, Some 10, Some 10]"
    using assms(3)
    by (simp add: chi2_script_def exec_chi2 p_in_unit_interval_def df_positive_def py_init_fields)
qed

theorem domain_bounds_witness:
  "(\<forall>x. 0 \<le> unif_cdf x \<and> unif_cdf x \<le> 1) \<and>
   (\<forall>x d. 0 \<le> unif_cdf_df x d \<and> unif_cdf_df x d \<le> 1) \<and>
   (\<exists>tr. exec (gaussian_script unif_ppf unif_cdf) py_init = Some tr \<and>
          list_all p_in_unit_interval tr \<and> list_all df_positive tr \<and>
          map var_df tr = [None, None, None, None, None, None]) \<and>
   (\<exists>tr. exec (t_script unif_ppf_df unif_cdf_df) py_init = Some tr \<and>
          list_all p_in_unit_interval tr \<and> list_all df_positive tr \<and>
          map var_df tr = [None, None, Some 10, Some 10, Some 10, Some 10, Some 10]) \<and>
   (\<exists>tr. exec (chi2_script unif_ppf_df unif_cdf_df) py_init = Some tr \<and>
          list_all p_in_unit_interval tr \<and> list_all df_positive tr \<and>
          map var_df tr = [None, None, Some 10, Some 10, Some 10, Some 10, Some 10])"
proof -
  have a: "\<forall>x. 0 \<le> unif_cdf x \<and> unif_cdf x \<le> 1"
    by (simp add: unif_cdf_def)
  have b: "\<forall>x d. 0 \<le> unif_cdf_df x d \<and> unif_cdf_df x d \<le> 1"
    by (simp add: unif_cdf_df_def unif_cdf_def)
  show ?thesis
    using a b domain_bounds [OF a b b, of unif_ppf unif_ppf_df unif_ppf_df]
    by blast
qed

subsection \<open>The error is the training error\<close>

text \<open>
  Claim C10. In all four recipes the error printed is the error on the data the model was
  fitted to. On a data frame of seven columns and sixteen rows whose last column and only
  its last is named \<^verbatim>\<open>Employed\<close>, and with prediction routines that return one prediction
  for each row they are given: the predictors of the formula are the first six columns,
  which are what \<^verbatim>\<open>longley[,1:6]\<close> selects, and its response is the seventh column, which
  is both \<^verbatim>\<open>longley[,7]\<close> and \<^verbatim>\<open>longley$Employed\<close>; each recipe fits its model to the
  whole data frame (Cubist: to these predictors and this response), predicts on the first
  six columns of the same frame, all rows, and the number it computes and prints is the
  mean over the sixteen rows of the squared difference between the entry of the seventh
  column and the prediction. No other data enters a run.
\<close>

theorem in_sample_error:
  assumes "employed_last longley" and "sixteen_rows longley"
    and "\<forall>fit x. length (predict_rpart fit x) = nrow x"
    and "\<forall>fit x. length (predict_bagging fit x) = nrow x"
    and "\<forall>fit x. length (predict_forest fit x) = nrow x"
    and "\<forall>fit x. length (predict_cubist fit x) = nrow x"
  shows
   "formula_predictors (Tilde ''Employed'' Dot) longley = take 6 longley \<and>
    select_cols longley (r_seq 1 6) = Some (take 6 longley) \<and>
    formula_response (Tilde ''Employed'' Dot) longley = Some (snd (longley ! 6)) \<and>
    select_col longley 7 = Some (snd (longley ! 6)) \<and>
    dollar longley ''Employed'' = snd (longley ! 6) \<and>
    (\<exists>s. run (cart_recipe longley rpart summary_rpart predict_rpart) r_init = Some s \<and>
       in_sample longley (rpart (Tilde ''Employed'' Dot) longley \<lparr>minsplit = 5\<rparr>)
         summary_rpart predict_rpart s) \<and>
    (\<exists>s. run (bagging_recipe longley bagging summary_bagging predict_bagging) r_init = Some s \<and>
       in_sample longley (bagging (Tilde ''Employed'' Dot) longley \<lparr>minsplit = 5\<rparr>)
         summary_bagging predict_bagging s) \<and>
    (\<exists>s. run (random_forest_recipe longley randomForest summary_forest predict_forest) r_init =
         Some s \<and>
       in_sample longley (randomForest (Tilde ''Employed'' Dot) longley)
         summary_forest predict_forest s) \<and>
    (\<exists>s. run (cubist_recipe longley cubist summary_cubist predict_cubist) r_init = Some s \<and>
       in_sample longley (cubist (take 6 longley) (snd (longley ! 6)))
         summary_cubist predict_cubist s)"
proof -
  have six: "6 \<le> length longley" using assms(1) by (simp add: employed_last_def)
  show ?thesis
    by (intro conjI employed_last_dollar [OF assms(1)] select_cols_1_6 [OF six]
        in_sample_cart [OF assms(1,2,3)] in_sample_bagging [OF assms(1,2,4)]
        in_sample_random_forest [OF assms(1,2,5)] in_sample_cubist [OF assms(1,2,6)])
qed

text \<open>
  On the concrete data with the stand-in library, which predicts 65 for every row: the
  error computed and printed by each recipe is the mean of the sixteen squared
  differences between the entries of the seventh column and 65, which is 3732333/320000.
\<close>

theorem in_sample_error_witness:
  "employed_last longley_data \<and> sixteen_rows longley_data \<and>
   (\<forall>fit x. length (flat_predict fit x) = nrow x) \<and>
   (\<Sum>i<length (snd (longley_data ! 6)).
       (snd (longley_data ! 6) ! i - flat_predict 65 (take 6 longley_data) ! i) ^ 2) /
     real (length (snd (longley_data ! 6))) = 3732333 / 320000 \<and>
   formula_predictors (Tilde ''Employed'' Dot) longley_data = take 6 longley_data \<and>
   select_cols longley_data (r_seq 1 6) = Some (take 6 longley_data) \<and>
   formula_response (Tilde ''Employed'' Dot) longley_data = Some (snd (longley_data ! 6)) \<and>
   select_col longley_data 7 = Some (snd (longley_data ! 6)) \<and>
   dollar longley_data ''Employed'' = snd (longley_data ! 6) \<and>
   (\<exists>s. run (cart_recipe longley_data flat_fit flat_summary flat_predict) r_init = Some s \<and>
      in_sample longley_data 65 flat_summary flat_predict s \<and>
      r_mse s = Some (Val (3732333 / 320000)) \<and>
      r_stdout s = [Text ''n= 16'', Number (Val (3732333 / 320000))]) \<and>
   (\<exists>s. run (bagging_recipe longley_data flat_fit flat_summary flat_predict) r_init = Some s \<and>
      in_sample longley_data 65 flat_summary flat_predict s) \<and>
   (\<exists>s. run (random_forest_recipe longley_data flat_forest flat_summary flat_predict) r_init =
        Some s \<and>
      in_sample longley_data 65 flat_summary flat_predict s) \<and>
   (\<exists>s. run (cubist_recipe longley_data flat_cubist flat_summary flat_predict) r_init = Some s \<and>
      in_sample longley_data 65 flat_summary flat_predict s)"
proof -
  have h: "employed_last longley_data"
    by (rule longley_data_shape(1))
  have r: "sixteen_rows longley_data"
    by (simp add: sixteen_rows_def longley_data_def)
  have p: "\<forall>fit x. length (flat_predict fit x) = nrow x"
    by (simp add: flat_predict_def)
  have f: "flat_fit (Tilde ''Employed'' Dot) longley_data \<lparr>minsplit = 5\<rparr> = 65"
    "flat_forest (Tilde ''Employed'' Dot) longley_data = 65"
    "flat_cubist (take 6 longley_data) (snd (longley_data ! 6)) = 65"
    by (simp_all add: flat_fit_def flat_forest_def flat_cubist_def)
  have v: "(\<Sum>i<length (snd (longley_data ! 6)).
       (snd (longley_data ! 6) ! i - flat_predict 65 (take 6 longley_data) ! i) ^ 2) /
     real (length (snd (longley_data ! 6))) = 3732333 / 320000"
  proof -
    have "Val ((\<Sum>i<length (snd (longley_data ! 6)).
        (snd (longley_data ! 6) ! i - flat_predict 65 (take 6 longley_data) ! i) ^ 2) /
      real (length (snd (longley_data ! 6)))) =
        mse (snd (longley_data ! 6)) (flat_predict 65 (take 6 longley_data))"
      using mse_explicit [OF predictions_per_row [OF h r p]] by simp
    also have "\<dots> = Val (3732333 / 320000)"
      using mse_flat by (simp only: employed_last_dollar(1) [OF h])
    finally show ?thesis by simp
  qed
  have s: "flat_summary 65 = ''n= 16''"
    by (simp add: flat_summary_def)
  show ?thesis
    using h r p v in_sample_error [where longley = longley_data
        and rpart = flat_fit and summary_rpart = flat_summary and predict_rpart = flat_predict
        and bagging = flat_fit and summary_bagging = flat_summary
        and predict_bagging = flat_predict
        and randomForest = flat_forest and summary_forest = flat_summary
        and predict_forest = flat_predict
        and cubist = flat_cubist and summary_cubist = flat_summary
        and predict_cubist = flat_predict, OF h r p p p p]
    by (simp only: f) (auto simp: in_sample_def Let_def s)
qed

end
